theory Spec2Isabelle
  imports Main
begin

section \<open>Data model (shared/types.ts)\<close>

text \<open>
  The TypeScript interfaces become records, the unions of string literals that hold a
  status become datatypes, optional fields become \<open>option\<close>, a \<open>Date\<close> is a reading of a
  logical clock (a natural number), and a value of type \<open>any\<close> is a small JSON tree.  A
  step's \<open>type\<close> stays a string: \<open>executeStep\<close> receives its step as \<open>any\<close> and has a
  \<open>default\<close> branch for a type it does not know.  The fields \<open>createdAt\<close> and
  \<open>updatedAt\<close> are kept by the document store and are left out; the configuration
  sections that the orchestrator never reads (kubectl, kustomize, gkeAutopilot,
  gceInstance, cloudDeploymentManager) are opaque JSON.
\<close>

datatype json =
    JNull
  | JBool bool
  | JNum int
  | JStr string
  | JArr "json list"
  | JObj "(string \<times> json) list"

datatype BackendType = Gcs | Local

record TerraformBackend =
  backend_type :: BackendType
  backend_bucket :: "string option"
  backend_prefix :: "string option"

record TerraformConfig =
  tf_workspaceDir :: string
  tf_variables :: "(string \<times> json) list"
  tf_backend :: TerraformBackend

record HelmConfig =
  helm_chartPath :: string
  helm_values :: "(string \<times> json) list"
  helm_release :: string
  helm_namespace :: string
  helm_timeout :: int

record AnsibleConfig =
  ansible_playbookPath :: string
  ansible_inventory :: string
  ansible_variables :: "(string \<times> json) list"
  ansible_vault_passwordFile :: "string option"

record ConfigSections =
  terraform :: "TerraformConfig option"
  helm :: "HelmConfig option"
  ansible :: "AnsibleConfig option"
  kubectl :: "json option"
  kustomize :: "json option"
  gkeAutopilot :: "json option"
  gceInstance :: "json option"
  cloudDeploymentManager :: "json option"

datatype SourceType = Pcf | Vm | Baremetal | Gke | Gce

datatype Environment = Dev | Staging | Test

datatype DeploymentType =
    DtTerraform | DtHelm | DtAnsible | DtHybrid | DtKubectl | DtKustomize
  | DtGkeAutopilot | DtGceInstance | DtCloudDeploymentManager

datatype DeploymentStatus = DPending | DRunning | DCompleted | DFailed | DCancelled

datatype PipelineStatus = PPending | PRunning | PCompleted | PFailed | PCancelled

datatype PipelineStepStatus = Pending | Running | Completed | Failed | Skipped | Cancelled

record DeploymentConfig =
  deployment_id :: string
  deployment_name :: string
  description :: "string option"
  sourceType :: SourceType
  githubRepo :: string
  branch :: string
  targetGCPProject :: string
  targetCluster :: string
  targetNamespace :: string
  environment :: Environment
  deploymentType :: DeploymentType
  deployment_status :: DeploymentStatus
  createdBy :: string
  lastDeployedAt :: "nat option"
  config :: ConfigSections

text \<open>
  The payload of a step is \<open>Record<string, any>\<close> in the source.  The builder writes four
  shapes of it: the clone step's \<open>{repository, branch}\<close>, a copy of the terraform section,
  the helm section spread into an object with \<open>targetCluster\<close> and \<open>targetNamespace\<close>
  added, and a copy of the ansible section.  \<open>NoConfig\<close> is the payload of a step stored
  without one.
\<close>

datatype StepConfig =
    CloneStepConfig string string
  | TerraformStepConfig TerraformConfig
  | HelmStepConfig HelmConfig string string
  | AnsibleStepConfig AnsibleConfig
  | NoConfig

record PipelineStep =
  step_id :: string
  step_name :: string
  step_type :: string
  step_status :: PipelineStepStatus
  step_startTime :: "nat option"
  step_endTime :: "nat option"
  logs :: "string list"
  dependencies :: "string list"
  step_config :: StepConfig

record Pipeline =
  pipeline_id :: string
  deploymentId :: string
  pipeline_status :: PipelineStatus
  steps :: "PipelineStep list"
  startTime :: "nat option"
  endTime :: "nat option"
  triggeredBy :: string

section \<open>Collaborators\<close>

text \<open>
  What the orchestrator calls and does not define.  \<open>uuidv4 n\<close> is the identifier that
  the \<open>n\<close>-th call of \<open>uuidv4()\<close> returns; nothing is assumed about it, not even that two
  calls differ.  Each tool service is a function of the clock reading at the call and of
  its arguments, returning \<open>Inr\<close> of its output, or \<open>Inl\<close> of the message of the error
  that it throws.
\<close>

record collaborators =
  uuidv4 :: "nat \<Rightarrow> string"
  cloneRepository :: "nat \<Rightarrow> string option \<Rightarrow> string option \<Rightarrow> string + string"
  terraform_plan :: "nat \<Rightarrow> StepConfig \<Rightarrow> string + string list"
  terraform_apply :: "nat \<Rightarrow> StepConfig \<Rightarrow> string + string list"
  helm_deploy :: "nat \<Rightarrow> StepConfig \<Rightarrow> string + string list"
  ansible_runPlaybook :: "nat \<Rightarrow> StepConfig \<Rightarrow> string + string list"

section \<open>Pipeline builder (PipelineOrchestrator.buildPipelineSteps)\<close>

text \<open>
  Every step literal of the builder has status \<open>pending\<close>, no timestamps and no logs.
\<close>

definition new_step ::
  "string \<Rightarrow> string \<Rightarrow> string \<Rightarrow> string list \<Rightarrow> StepConfig \<Rightarrow> PipelineStep" where
  "new_step i nm ty deps cfg =
     \<lparr>step_id = i, step_name = nm, step_type = ty, step_status = Pending,
      step_startTime = None, step_endTime = None, logs = [],
      dependencies = deps, step_config = cfg\<rparr>"

text \<open>
  \<open>buildPipelineSteps cs n d\<close> builds the steps of deployment \<open>d\<close> when \<open>n\<close> calls of
  \<open>uuidv4()\<close> have been made before, and returns the steps with the new count of calls.
  The four blocks of the source follow each other; \<open>steps.push\<close> appends, and
  \<open>steps[k].id\<close> is read after the pushes that precede it, where index \<open>k\<close> exists.
\<close>

definition buildPipelineSteps ::
  "collaborators \<Rightarrow> nat \<Rightarrow> DeploymentConfig \<Rightarrow> PipelineStep list \<times> nat" where
  "buildPipelineSteps cs n d =
    (let steps0 = [new_step (uuidv4 cs n) ''Clone Repository'' ''clone'' []
                     (CloneStepConfig (githubRepo d) (branch d))];
         n0 = n + 1;
         (steps1, n1) =
           (case terraform (config d) of
              None \<Rightarrow> (steps0, n0)
            | Some tf \<Rightarrow>
                (let sa = steps0 @ [new_step (uuidv4 cs n0) ''Terraform Plan'' ''terraform-plan''
                                     [step_id (steps0 ! 0)] (TerraformStepConfig tf)];
                     sb = sa @ [new_step (uuidv4 cs (n0 + 1)) ''Terraform Apply'' ''terraform-apply''
                                     [step_id (sa ! 1)] (TerraformStepConfig tf)]
                 in (sb, n0 + 2)));
         (steps2, n2) =
           (case helm (config d) of
              None \<Rightarrow> (steps1, n1)
            | Some h \<Rightarrow>
                (steps1 @ [new_step (uuidv4 cs n1) ''Helm Deploy'' ''helm-deploy''
                             (if terraform (config d) \<noteq> None then [step_id (steps1 ! 2)]
                              else [step_id (steps1 ! 0)])
                             (HelmStepConfig h (targetCluster d) (targetNamespace d))],
                 n1 + 1));
         (steps3, n3) =
           (case ansible (config d) of
              None \<Rightarrow> (steps2, n2)
            | Some a \<Rightarrow>
                (steps2 @ [new_step (uuidv4 cs n2) ''Ansible Configuration'' ''ansible-run''
                             [step_id (steps2 ! (length steps2 - 1))] (AnsibleStepConfig a)],
                 n2 + 1))
     in (steps3, n3))"

section \<open>Storage, clock and broadcast\<close>

text \<open>
  The state outside the orchestrator: the two collections of the document store, keyed by
  the \<open>id\<close> of a record, the clock, the number of identifiers generated so far, the
  events sent to the broadcast hub (the room, the event name, the pipeline's id, and the
  step or the status that the payload carries), and the log of the calls made to the tool
  services, each entry naming the operation, the pipeline and the position of the step it
  was made for.  A store operation always succeeds here, and the calls to the logger are left
  out.
\<close>

datatype UpdatePayload = StepUpdate PipelineStep | StatusUpdate string

record World =
  deployments :: "string \<rightharpoonup> DeploymentConfig"
  pipelines :: "string \<rightharpoonup> Pipeline"
  clock :: nat
  uuid_calls :: nat
  emitted :: "(string \<times> string \<times> string \<times> UpdatePayload) list"
  service_calls :: "(string \<times> string \<times> nat) list"

text \<open>\<open>new Date()\<close>: the reading of the clock, which then moves on.\<close>

definition new_Date :: "World \<Rightarrow> nat \<times> World" where
  "new_Date w = (clock w, w\<lparr>clock := clock w + 1\<rparr>)"

text \<open>\<open>uuidv4()\<close>: the next identifier of the generator.\<close>

definition next_uuid :: "collaborators \<Rightarrow> World \<Rightarrow> string \<times> World" where
  "next_uuid cs w = (uuidv4 cs (uuid_calls w), w\<lparr>uuid_calls := uuid_calls w + 1\<rparr>)"

text \<open>
  \<open>pipeline.save()\<close> on the document that the runner holds writes it under its id.  A
  document that was looked up first (\<open>findById\<close>, \<open>findOne\<close>) is written back by its
  \<open>save()\<close> where it was found.
\<close>

definition save_pipeline :: "Pipeline \<Rightarrow> World \<Rightarrow> World" where
  "save_pipeline p w = w\<lparr>pipelines := (pipelines w)(pipeline_id p \<mapsto> p)\<rparr>"

text \<open>
  \<open>Deployment.findByIdAndUpdate(id, update)\<close> changes the stored deployment with that id
  and does nothing when there is none.
\<close>

definition findByIdAndUpdate ::
  "string \<Rightarrow> (DeploymentConfig \<Rightarrow> DeploymentConfig) \<Rightarrow> World \<Rightarrow> World" where
  "findByIdAndUpdate i upd w =
     (case deployments w i of
        None \<Rightarrow> w
      | Some d \<Rightarrow> w\<lparr>deployments := (deployments w)(i \<mapsto> upd d)\<rparr>)"

text \<open>
  \<open>io.to(`deployment-${pipeline.deploymentId}`).emit('pipeline-update', {pipelineId, step})\<close>
\<close>

definition emit_pipeline_update :: "Pipeline \<Rightarrow> PipelineStep \<Rightarrow> World \<Rightarrow> World" where
  "emit_pipeline_update p step w =
     w\<lparr>emitted := emitted w @
        [(''deployment-'' @ deploymentId p, ''pipeline-update'', pipeline_id p,
          StepUpdate step)]\<rparr>"

definition log_call :: "string \<Rightarrow> string \<Rightarrow> nat \<Rightarrow> World \<Rightarrow> World" where
  "log_call operation pid i w = w\<lparr>service_calls := service_calls w @ [(operation, pid, i)]\<rparr>"

section \<open>Dependency check (PipelineOrchestrator.areDependenciesCompleted)\<close>

text \<open>
  \<open>allSteps.find(s => s.id === depId)\<close> is the first step with that id, and
  \<open>dep && dep.status === 'completed'\<close> is falsy when there is none.
\<close>

definition areDependenciesCompleted :: "PipelineStep \<Rightarrow> PipelineStep list \<Rightarrow> bool" where
  "areDependenciesCompleted step allSteps =
     list_all (\<lambda>depId.
        case find (\<lambda>s. step_id s = depId) allSteps of
          None \<Rightarrow> False
        | Some dep \<Rightarrow> step_status dep = Completed)
       (dependencies step)"

section \<open>Step executor (PipelineOrchestrator.executeStep)\<close>

text \<open>
  \<open>step.config.repository\<close> and \<open>step.config.branch\<close>: the property of the payload, absent
  (\<open>undefined\<close>) in a payload with no such property.  Reading a property of a missing
  payload throws a \<open>TypeError\<close>.
\<close>

fun cfg_repository :: "StepConfig \<Rightarrow> string option" where
  "cfg_repository (CloneStepConfig r b) = Some r"
| "cfg_repository c = None"

fun cfg_branch :: "StepConfig \<Rightarrow> string option" where
  "cfg_branch (CloneStepConfig r b) = Some b"
| "cfg_branch c = None"

text \<open>
  The \<open>switch\<close> inside the \<open>try\<close> block, for the step at position \<open>i\<close> of pipeline \<open>pid\<close>.
  The result is \<open>Inl\<close> of the message of the error thrown (by the service, by the
  \<open>default\<close> branch, or by the property read), or \<open>Inr\<close> of the step with the output of the
  service pushed onto its logs.  The output of \<open>cloneRepository\<close> is dropped.
\<close>

definition run_switch ::
  "collaborators \<Rightarrow> string \<Rightarrow> nat \<Rightarrow> PipelineStep \<Rightarrow> World \<Rightarrow> (string + PipelineStep) \<times> World" where
  "run_switch cs pid i step w =
    (if step_type step = ''clone'' then
       (if step_config step = NoConfig then
          (Inl ''Cannot read properties of undefined (reading 'repository')'', w)
        else
          (case cloneRepository cs (clock w) (cfg_repository (step_config step))
                  (cfg_branch (step_config step)) of
             Inl msg \<Rightarrow> Inl msg
           | Inr path \<Rightarrow> Inr step,
           log_call ''githubService.cloneRepository'' pid i w))
     else if step_type step = ''terraform-plan'' then
       (case terraform_plan cs (clock w) (step_config step) of
          Inl msg \<Rightarrow> Inl msg
        | Inr planOutput \<Rightarrow> Inr (step\<lparr>logs := logs step @ planOutput\<rparr>),
        log_call ''terraformService.plan'' pid i w)
     else if step_type step = ''terraform-apply'' then
       (case terraform_apply cs (clock w) (step_config step) of
          Inl msg \<Rightarrow> Inl msg
        | Inr applyOutput \<Rightarrow> Inr (step\<lparr>logs := logs step @ applyOutput\<rparr>),
        log_call ''terraformService.apply'' pid i w)
     else if step_type step = ''helm-deploy'' then
       (case helm_deploy cs (clock w) (step_config step) of
          Inl msg \<Rightarrow> Inl msg
        | Inr helmOutput \<Rightarrow> Inr (step\<lparr>logs := logs step @ helmOutput\<rparr>),
        log_call ''helmService.deploy'' pid i w)
     else if step_type step = ''ansible-run'' then
       (case ansible_runPlaybook cs (clock w) (step_config step) of
          Inl msg \<Rightarrow> Inl msg
        | Inr ansibleOutput \<Rightarrow> Inr (step\<lparr>logs := logs step @ ansibleOutput\<rparr>),
        log_call ''ansibleService.runPlaybook'' pid i w)
     else (Inl (''Unknown step type: '' @ step_type step), w))"

text \<open>
  \<open>executeStep cs i p w\<close> runs the step at position \<open>i\<close> of the pipeline document \<open>p\<close>
  (the source receives the step itself, which is an element of \<open>pipeline.steps\<close> and is
  changed in place; the runner only calls it with \<open>i < length (steps p)\<close>).  The \<open>catch\<close>
  block takes the thrown message, so the function has no failing result; the \<open>finally\<close>
  block sets the end time and saves the pipeline.
\<close>

definition executeStep :: "collaborators \<Rightarrow> nat \<Rightarrow> Pipeline \<Rightarrow> World \<Rightarrow> Pipeline \<times> World" where
  "executeStep cs i p w =
    (let step0 = (steps p ! i)\<lparr>step_status := Running\<rparr>;
         (t0, w0) = new_Date w;
         step1 = step0\<lparr>step_startTime := Some t0\<rparr>;
         step2 = step1\<lparr>logs := logs step1 @ [''Starting step: '' @ step_name step1]\<rparr>;
         (r, w1) = run_switch cs (pipeline_id p) i step2 w0;
         step3 =
           (case r of
              Inr s \<Rightarrow>
                s\<lparr>step_status := Completed,
                  logs := logs s @ [''Step completed successfully: '' @ step_name s]\<rparr>
            | Inl msg \<Rightarrow>
                step2\<lparr>step_status := Failed,
                      logs := logs step2 @ [''Step failed: '' @ msg]\<rparr>);
         (t1, w2) = new_Date w1;
         step4 = step3\<lparr>step_endTime := Some t1\<rparr>;
         p1 = p\<lparr>steps := (steps p)[i := step4]\<rparr>
     in (p1, save_pipeline p1 w2))"

text \<open>
  The two halves of \<open>executeStep\<close>, named for the statements about it: the step as the
  \<open>try\<close> block receives it, started at time \<open>t\<close>, and the step as the \<open>catch\<close> and
  \<open>finally\<close> blocks leave it at time \<open>t\<close>, given the result \<open>r\<close> of the \<open>switch\<close>.
\<close>

definition started :: "PipelineStep \<Rightarrow> nat \<Rightarrow> PipelineStep" where
  "started s t =
     s\<lparr>step_status := Running, step_startTime := Some t,
       logs := logs s @ [''Starting step: '' @ step_name s]\<rparr>"

definition finished :: "string + PipelineStep \<Rightarrow> PipelineStep \<Rightarrow> nat \<Rightarrow> PipelineStep" where
  "finished r s2 t =
     (case r of
        Inr s \<Rightarrow>
          s\<lparr>step_status := Completed,
            logs := logs s @ [''Step completed successfully: '' @ step_name s],
            step_endTime := Some t\<rparr>
      | Inl msg \<Rightarrow>
          s2\<lparr>step_status := Failed, logs := logs s2 @ [''Step failed: '' @ msg],
             step_endTime := Some t\<rparr>)"

lemma length_steps_executeStep:
  "length (steps (fst (executeStep cs i p w))) = length (steps p)"
  by (simp add: executeStep_def Let_def split: prod.splits)

section \<open>Pipeline runner (PipelineOrchestrator.executePipeline)\<close>

text \<open>
  The \<open>for\<close> loop over \<open>pipeline.steps\<close>, from position \<open>i\<close> on.  A step whose dependencies
  are not all completed is marked skipped and the loop goes on (\<open>continue\<close>); a step that
  ends failed sets the pipeline to failed and ends the loop (\<open>break\<close>).
\<close>

function steps_loop :: "collaborators \<Rightarrow> nat \<Rightarrow> Pipeline \<Rightarrow> World \<Rightarrow> Pipeline \<times> World" where
  "steps_loop cs i p w =
    (if i < length (steps p) then
       (if \<not> areDependenciesCompleted (steps p ! i) (steps p) then
          steps_loop cs (i + 1)
            (p\<lparr>steps := (steps p)[i := (steps p ! i)\<lparr>step_status := Skipped\<rparr>]\<rparr>) w
        else
          (let (p1, w1) = executeStep cs i p w;
               w2 = emit_pipeline_update p1 (steps p1 ! i) w1
           in if step_status (steps p1 ! i) = Failed
              then (p1\<lparr>pipeline_status := PFailed\<rparr>, w2)
              else steps_loop cs (i + 1) p1 w2))
     else (p, w))"
  by pat_completeness auto
termination
proof (relation "measure (\<lambda>(cs, i, p, w). length (steps p) - i)")
  show "wf (measure (\<lambda>(cs, i, p, w). length (steps p) - i))"
    by simp
next
  fix cs :: collaborators and i :: nat and p :: Pipeline and w :: World
  assume "i < length (steps p)"
  then show "((cs, i + 1, p\<lparr>steps := (steps p)[i := (steps p ! i)\<lparr>step_status := Skipped\<rparr>]\<rparr>, w),
              (cs, i, p, w)) \<in> measure (\<lambda>(cs, i, p, w). length (steps p) - i)"
    by simp
next
  fix cs :: collaborators and i :: nat and p :: Pipeline and w :: World
    and x :: "Pipeline \<times> World" and p1 :: Pipeline and w1 :: World and w2 :: World
  assume lt: "i < length (steps p)" and x: "x = executeStep cs i p w" and p1: "(p1, w1) = x"
  have "length (steps p1) = length (steps p)"
    using length_steps_executeStep [of cs i p w] x p1 by (metis fst_conv)
  with lt show "((cs, i + 1, p1, w2), (cs, i, p, w)) \<in> measure (\<lambda>(cs, i, p, w). length (steps p) - i)"
    by simp
qed

declare steps_loop.simps [simp del]

text \<open>
  The body of \<open>executePipeline\<close>.  Nothing in it throws here (\<open>executeStep\<close> catches the
  failure of a service itself, and the store and the hub always answer), so the handler
  of its own \<open>try\<close> has no counterpart.
\<close>

definition executePipeline :: "collaborators \<Rightarrow> Pipeline \<Rightarrow> World \<Rightarrow> Pipeline \<times> World" where
  "executePipeline cs p w =
    (let (p1, w1) = steps_loop cs 0 p w in
     if pipeline_status p1 \<noteq> PFailed then
       (let p2 = p1\<lparr>pipeline_status := PCompleted\<rparr>;
            (t, w2) = new_Date w1;
            w3 = findByIdAndUpdate (deploymentId p2)
                   (\<lambda>d. d\<lparr>deployment_status := DCompleted, lastDeployedAt := Some t\<rparr>) w2;
            (t', w4) = new_Date w3;
            p3 = p2\<lparr>endTime := Some t'\<rparr>
        in (p3, save_pipeline p3 w4))
     else
       (let w2 = findByIdAndUpdate (deploymentId p1)
                   (\<lambda>d. d\<lparr>deployment_status := DFailed\<rparr>) w1;
            (t', w3) = new_Date w2;
            p2 = p1\<lparr>endTime := Some t'\<rparr>
        in (p2, save_pipeline p2 w3)))"


section \<open>Facade (startPipeline, getPipeline, cancelPipeline)\<close>

text \<open>A rejected promise carries a JavaScript \<open>Error\<close> with its message.\<close>

datatype error = Error string

text \<open>
  \<open>startPipeline\<close> returns the new pipeline's id, or rethrows what its \<open>try\<close> block threw.
  It starts \<open>executePipeline\<close> on the pipeline document without waiting for it: the
  model returns that document beside the id, for \<open>executePipeline\<close> to run on.
\<close>

definition startPipeline ::
  "collaborators \<Rightarrow> string \<Rightarrow> string \<Rightarrow> World \<Rightarrow> (error + string \<times> Pipeline) \<times> World" where
  "startPipeline cs depId by w =
    (let (pipelineId, w0) = next_uuid cs w in
     case deployments w0 depId of
       None \<Rightarrow> (Inl (Error (''Deployment '' @ depId @ '' not found'')), w0)
     | Some deployment \<Rightarrow>
         (let deployment1 = deployment\<lparr>deployment_status := DRunning\<rparr>;
              w1 = w0\<lparr>deployments := (deployments w0)(depId \<mapsto> deployment1)\<rparr>;
              (steps1, n) = buildPipelineSteps cs (uuid_calls w1) deployment1;
              w2 = w1\<lparr>uuid_calls := n\<rparr>;
              (t, w3) = new_Date w2;
              pipeline = \<lparr>pipeline_id = pipelineId, deploymentId = depId,
                          pipeline_status = PRunning, steps = steps1,
                          startTime = Some t, endTime = None, triggeredBy = by\<rparr>;
              w4 = save_pipeline pipeline w3
          in (Inr (pipelineId, pipeline), w4)))"

definition getPipeline :: "string \<Rightarrow> World \<Rightarrow> error + Pipeline option" where
  "getPipeline pipelineId w = Inr (pipelines w pipelineId)"

text \<open>
  \<open>cancelPipeline\<close> acts only on a stored pipeline whose status is \<open>running\<close>; it has no
  \<open>throw\<close> and no \<open>else\<close> branch.
\<close>

definition cancelPipeline :: "string \<Rightarrow> World \<Rightarrow> (error + unit) \<times> World" where
  "cancelPipeline pipelineId w =
    (case pipelines w pipelineId of
       None \<Rightarrow> (Inr (), w)
     | Some pipeline \<Rightarrow>
         if pipeline_status pipeline = PRunning then
           (let p1 = pipeline\<lparr>pipeline_status := PCancelled\<rparr>;
                (t, w1) = new_Date w;
                p2 = p1\<lparr>endTime := Some t\<rparr>;
                w2 = w1\<lparr>pipelines := (pipelines w1)(pipelineId \<mapsto> p2)\<rparr>;
                w3 = findByIdAndUpdate (deploymentId p2)
                       (\<lambda>d. d\<lparr>deployment_status := DCancelled\<rparr>) w2
            in (Inr (), w3))
         else (Inr (), w))"

section \<open>The stored schema of a pipeline (models/Pipeline)\<close>

text \<open>
  The two route handlers below store their pipelines through \<open>PipelineModel\<close>, whose step
  schema enumerates the values of a step's \<open>type\<close> and \<open>status\<close>; \<open>save()\<close> rejects a document
  with a step outside them.  The status \<open>cancelled\<close> is not among the enumerated step
  statuses.  (The enumerated pipeline statuses are all five of \<open>PipelineStatus\<close>.)  Of the
  checks that \<open>save()\<close> makes, these are the ones modelled.
\<close>

definition step_type_enum :: "string list" where
  "step_type_enum = [''clone'', ''build'', ''terraform'', ''helm'', ''ansible'', ''notify'']"

definition step_status_enum :: "PipelineStepStatus list" where
  "step_status_enum = [Pending, Running, Completed, Failed, Skipped]"

definition pipeline_schema_ok :: "Pipeline \<Rightarrow> bool" where
  "pipeline_schema_ok p =
     list_all (\<lambda>s. step_type s \<in> set step_type_enum \<and>
                    step_status s \<in> set step_status_enum) (steps p)"

section \<open>The trigger route (router.post('/:id/trigger'))\<close>

text \<open>
  The HTTP handler that answers a trigger request.  It does not call the orchestrator: it
  checks the deployment itself, stores a pipeline of four fixed steps and marks the
  deployment running.  The steps it writes carry an id, a name, a type and a status only
  (no payload, no logs, no dependencies).  The type of the third step is the deployment's
  type, which the step schema admits for terraform, helm and ansible only: for any other
  deployment type \<open>pipeline.save()\<close> rejects, and the \<open>catch\<close> block answers 500 with
  nothing stored.  The timer callback that the handler schedules, a stand-in that marks
  the stored pipeline completed five seconds later, is a later event and not part of the
  answer.
\<close>

datatype TriggerResponse =
    TriggerError nat string
  | TriggerOk string

fun deploymentType_string :: "DeploymentType \<Rightarrow> string" where
  "deploymentType_string DtTerraform = ''terraform''"
| "deploymentType_string DtHelm = ''helm''"
| "deploymentType_string DtAnsible = ''ansible''"
| "deploymentType_string DtHybrid = ''hybrid''"
| "deploymentType_string DtKubectl = ''kubectl''"
| "deploymentType_string DtKustomize = ''kustomize''"
| "deploymentType_string DtGkeAutopilot = ''gke-autopilot''"
| "deploymentType_string DtGceInstance = ''gce-instance''"
| "deploymentType_string DtCloudDeploymentManager = ''cloud-deployment-manager''"

definition route_step :: "string \<Rightarrow> string \<Rightarrow> string \<Rightarrow> PipelineStep" where
  "route_step i nm ty = new_step i nm ty [] NoConfig"

definition trigger_route ::
  "collaborators \<Rightarrow> string \<Rightarrow> string option \<Rightarrow> World \<Rightarrow> TriggerResponse \<times> World" where
  "trigger_route cs depId email w =
    (case deployments w depId of
       None \<Rightarrow> (TriggerError 404 ''Deployment not found'', w)
     | Some deployment \<Rightarrow>
         if deployment_status deployment = DRunning then
           (TriggerError 400 ''Deployment is already running'', w)
         else
           (let (pid, w0) = next_uuid cs w;
                by = (case email of
                        None \<Rightarrow> ''unknown''
                      | Some e \<Rightarrow> if e = [] then ''unknown'' else e);
                (t, w1) = new_Date w0;
                (i1, w2) = next_uuid cs w1;
                (i2, w3) = next_uuid cs w2;
                (i3, w4) = next_uuid cs w3;
                (i4, w5) = next_uuid cs w4;
                pipeline =
                  \<lparr>pipeline_id = pid, deploymentId = deployment_id deployment,
                   pipeline_status = PPending,
                   steps =
                     [route_step i1 ''Clone Repository'' ''clone'',
                      route_step i2 ''Build Application'' ''build'',
                      route_step i3
                        (''Deploy with '' @ deploymentType_string (deploymentType deployment))
                        (deploymentType_string (deploymentType deployment)),
                      route_step i4 ''Send Notifications'' ''notify''],
                   startTime = Some t, endTime = None, triggeredBy = by\<rparr>
            in if \<not> pipeline_schema_ok pipeline then
                 (TriggerError 500 ''Failed to trigger deployment'', w5)
               else
                 (let w6 = save_pipeline pipeline w5;
                      (t', w7) = new_Date w6;
                      deployment1 =
                        deployment\<lparr>deployment_status := DRunning, lastDeployedAt := Some t'\<rparr>;
                      w8 = w7\<lparr>deployments := (deployments w7)(depId \<mapsto> deployment1)\<rparr>
                  in (TriggerOk (pipeline_id pipeline), w8))))"

section \<open>The cancel route (router.post('/details/:pipelineId/cancel'))\<close>

text \<open>
  The HTTP handler that answers a cancel request; like the trigger route it does not call
  the orchestrator.  It answers 404 for a pipeline that is not stored and 400 for one
  that is neither running nor pending.  Otherwise it sets the pipeline cancelled with an
  end time, repaints the steps, saves the pipeline, sets the deployment cancelled when it
  is running, tells the hub (attached to \<open>global.io\<close> at start-up) and answers with the
  pipeline.
\<close>

datatype CancelResponse =
    CancelError nat string
  | CancelOk Pipeline

text \<open>
  The \<open>map\<close> over \<open>pipeline.steps\<close>: a running or pending step becomes cancelled, and a
  step that was running gets the time of the call as its end time.
\<close>

fun cancel_steps :: "PipelineStep list \<Rightarrow> World \<Rightarrow> PipelineStep list \<times> World" where
  "cancel_steps [] w = ([], w)"
| "cancel_steps (step # rest) w =
     (let status1 = (if step_status step = Running \<or> step_status step = Pending
                     then Cancelled else step_status step);
          (endTime1, w1) = (if step_status step = Running
                            then (case new_Date w of (t, w') \<Rightarrow> (Some t, w'))
                            else (step_endTime step, w));
          (rest1, w2) = cancel_steps rest w1
      in (step\<lparr>step_status := status1, step_endTime := endTime1\<rparr> # rest1, w2))"

definition cancel_route :: "string \<Rightarrow> World \<Rightarrow> CancelResponse \<times> World" where
  "cancel_route pipelineId w =
    (case pipelines w pipelineId of
       None \<Rightarrow> (CancelError 404 ''Pipeline not found'', w)
     | Some pipeline \<Rightarrow>
         if pipeline_status pipeline \<noteq> PRunning \<and> pipeline_status pipeline \<noteq> PPending then
           (CancelError 400 ''Cannot cancel pipeline that is not running or pending'', w)
         else
           (let p1 = pipeline\<lparr>pipeline_status := PCancelled\<rparr>;
                (t, w1) = new_Date w;
                p2 = p1\<lparr>endTime := Some t\<rparr>;
                (steps1, w2) = cancel_steps (steps p2) w1;
                p3 = p2\<lparr>steps := steps1\<rparr>
            in if \<not> pipeline_schema_ok p3 then
                 (CancelError 500 ''Failed to cancel pipeline'', w2)
               else
                 (let w3 = w2\<lparr>pipelines := (pipelines w2)(pipelineId \<mapsto> p3)\<rparr>;
                      w4 = (case deployments w3 (deploymentId p3) of
                              None \<Rightarrow> w3
                            | Some deployment \<Rightarrow>
                                if deployment_status deployment = DRunning then
                                  w3\<lparr>deployments := (deployments w3)(deploymentId p3 \<mapsto>
                                        deployment\<lparr>deployment_status := DCancelled\<rparr>)\<rparr>
                                else w3);
                      w5 = w4\<lparr>emitted := emitted w4 @
                             [(''deployment-'' @ deploymentId p3, ''pipeline-update'',
                               pipeline_id p3, StatusUpdate ''cancelled'')]\<rparr>
                  in (CancelOk p3, w5))))"

section \<open>Sample inputs\<close>

text \<open>
  A deployment with a terraform and a helm section, the same deployment with an ansible
  section added, an identifier generator whose identifiers all differ, and tool services
  that all succeed.
\<close>

definition sample_terraform :: TerraformConfig where
  "sample_terraform =
     \<lparr>tf_workspaceDir = ''infra'', tf_variables = [(''region'', JStr ''europe-west1'')],
      tf_backend = \<lparr>backend_type = Gcs, backend_bucket = Some ''state'', backend_prefix = None\<rparr>\<rparr>"

definition sample_helm :: HelmConfig where
  "sample_helm =
     \<lparr>helm_chartPath = ''charts/app'', helm_values = [(''replicas'', JNum 2)],
      helm_release = ''app'', helm_namespace = ''default'', helm_timeout = 300\<rparr>"

definition sample_ansible :: AnsibleConfig where
  "sample_ansible =
     \<lparr>ansible_playbookPath = ''site.yml'', ansible_inventory = ''hosts'',
      ansible_variables = [], ansible_vault_passwordFile = None\<rparr>"

definition sample_deployment :: DeploymentConfig where
  "sample_deployment =
     \<lparr>deployment_id = ''dep-1'', deployment_name = ''shop'', description = None,
      sourceType = Vm, githubRepo = ''https://github.com/acme/shop'', branch = ''main'',
      targetGCPProject = ''acme-dev'', targetCluster = ''cluster-1'',
      targetNamespace = ''shop'', environment = Dev, deploymentType = DtHybrid,
      deployment_status = DPending, createdBy = ''alice'', lastDeployedAt = None,
      config =
        \<lparr>terraform = Some sample_terraform, helm = Some sample_helm, ansible = None,
         kubectl = None, kustomize = None, gkeAutopilot = None, gceInstance = None,
         cloudDeploymentManager = None\<rparr>\<rparr>"

definition sample_deployment_ansible :: DeploymentConfig where
  "sample_deployment_ansible =
     sample_deployment\<lparr>config := (config sample_deployment)\<lparr>ansible := Some sample_ansible\<rparr>\<rparr>"

definition sample_collaborators :: collaborators where
  "sample_collaborators =
     \<lparr>uuidv4 = (\<lambda>n. replicate (Suc n) CHR ''u''),
      cloneRepository = (\<lambda>t repo br. Inr ''/tmp/deployments/shop''),
      terraform_plan = (\<lambda>t c. Inr [''Plan: 1 to add'']),
      terraform_apply = (\<lambda>t c. Inr [''Apply complete'']),
      helm_deploy = (\<lambda>t c. Inr [''Release deployed'']),
      ansible_runPlaybook = (\<lambda>t c. Inr [''Playbook finished''])\<rparr>"

text \<open>The same services, with a \<open>terraform apply\<close> that throws.\<close>

definition failing_collaborators :: collaborators where
  "failing_collaborators =
     sample_collaborators\<lparr>terraform_apply := (\<lambda>t c. Inl ''apply exited with code 1'')\<rparr>"

definition sample_world :: World where
  "sample_world =
     \<lparr>deployments = [''dep-1'' \<mapsto> sample_deployment], pipelines = Map.empty,
      clock = 100, uuid_calls = 0, emitted = [], service_calls = []\<rparr>"

text \<open>
  A stored pipeline of two steps whose first step is running, and the world that holds
  it with a given pipeline status and deployment status.
\<close>

definition stored_pipeline :: Pipeline where
  "stored_pipeline =
     \<lparr>pipeline_id = ''pipe-1'', deploymentId = ''dep-1'', pipeline_status = PRunning,
      steps =
        [(new_step ''s1'' ''Clone Repository'' ''clone'' []
            (CloneStepConfig ''https://github.com/acme/shop'' ''main''))
           \<lparr>step_status := Running, step_startTime := Some 90\<rparr>,
         new_step ''s2'' ''Helm Deploy'' ''helm-deploy'' [''s1'']
           (HelmStepConfig sample_helm ''cluster-1'' ''shop'')],
      startTime = Some 90, endTime = None, triggeredBy = ''alice''\<rparr>"

definition world_with :: "PipelineStatus \<Rightarrow> DeploymentStatus \<Rightarrow> World" where
  "world_with ps ds =
     sample_world
       \<lparr>deployments := [''dep-1'' \<mapsto> sample_deployment\<lparr>deployment_status := ds\<rparr>],
        pipelines := [''pipe-1'' \<mapsto> stored_pipeline\<lparr>pipeline_status := ps\<rparr>]\<rparr>"

text \<open>
  The pipeline of the sample deployment as \<open>startPipeline\<close> would hand it to the runner:
  running, with the four pending steps of the builder.
\<close>

definition sample_pipeline :: Pipeline where
  "sample_pipeline =
     \<lparr>pipeline_id = ''pipe-1'', deploymentId = ''dep-1'', pipeline_status = PRunning,
      steps = fst (buildPipelineSteps sample_collaborators 0 sample_deployment),
      startTime = Some 99, endTime = None, triggeredBy = ''alice''\<rparr>"

section \<open>Properties of the builder\<close>

text \<open>The dependencies of the step at each position of a built sequence.\<close>

lemma buildPipelineSteps_dependencies:
  "i < length (fst (buildPipelineSteps cs n d)) \<Longrightarrow>
   dependencies (fst (buildPipelineSteps cs n d) ! i) =
     (if i = 0 then [] else [step_id (fst (buildPipelineSteps cs n d) ! (i - 1))])"
  by (cases "terraform (config d)"; cases "helm (config d)"; cases "ansible (config d)")
     (auto simp add: buildPipelineSteps_def new_step_def Let_def nth_Cons' nth_append
        less_Suc_eq split: if_splits)

text \<open>Apart from the identifiers, a build depends on the deployment only.\<close>

lemma buildPipelineSteps_fields:
  "map (\<lambda>s. s\<lparr>step_id := [], dependencies := []\<rparr>) (fst (buildPipelineSteps cs1 n1 d)) =
   map (\<lambda>s. s\<lparr>step_id := [], dependencies := []\<rparr>) (fst (buildPipelineSteps cs2 n2 d))"
  by (cases "terraform (config d)"; cases "helm (config d)"; cases "ansible (config d)")
     (simp_all add: buildPipelineSteps_def new_step_def Let_def)

text \<open>
  Claim C2, as amended.  For every deployment whose configuration carries a terraform and
  a helm section and no ansible section, the builder produces exactly four steps, in the
  order clone, terraform-plan, terraform-apply, helm-deploy; the clone step has no
  dependencies and each later step depends exactly on the step before it.
\<close>

theorem buildPipelineSteps_terraform_helm:
  assumes "terraform (config d) = Some tf" and "helm (config d) = Some h"
    and "ansible (config d) = None"
  shows "length (fst (buildPipelineSteps cs n d)) = 4 \<and>
         map step_type (fst (buildPipelineSteps cs n d)) =
           [''clone'', ''terraform-plan'', ''terraform-apply'', ''helm-deploy''] \<and>
         dependencies (fst (buildPipelineSteps cs n d) ! 0) = [] \<and>
         dependencies (fst (buildPipelineSteps cs n d) ! 1) =
           [step_id (fst (buildPipelineSteps cs n d) ! 0)] \<and>
         dependencies (fst (buildPipelineSteps cs n d) ! 2) =
           [step_id (fst (buildPipelineSteps cs n d) ! 1)] \<and>
         dependencies (fst (buildPipelineSteps cs n d) ! 3) =
           [step_id (fst (buildPipelineSteps cs n d) ! 2)]"
  using assms by (simp add: buildPipelineSteps_def new_step_def Let_def)

text \<open>The sample deployment has the two sections and no ansible section.\<close>

theorem buildPipelineSteps_terraform_helm_witness:
  "terraform (config sample_deployment) = Some sample_terraform \<and>
   helm (config sample_deployment) = Some sample_helm \<and>
   ansible (config sample_deployment) = None \<and>
   map step_type (fst (buildPipelineSteps sample_collaborators 0 sample_deployment)) =
     [''clone'', ''terraform-plan'', ''terraform-apply'', ''helm-deploy'']"
proof -
  have t: "terraform (config sample_deployment) = Some sample_terraform"
    and h: "helm (config sample_deployment) = Some sample_helm"
    and a: "ansible (config sample_deployment) = None"
    by (simp_all add: sample_deployment_def)
  from buildPipelineSteps_terraform_helm [OF t h a, of sample_collaborators 0] t h a
  show ?thesis by simp
qed

text \<open>
  Claim C2 as stated fails: a deployment that carries a terraform and a helm section may
  carry an ansible section too, and then the builder appends a fifth step.
\<close>

theorem buildPipelineSteps_five_steps_counterexample:
  "terraform (config sample_deployment_ansible) \<noteq> None \<and>
   helm (config sample_deployment_ansible) \<noteq> None \<and>
   length (fst (buildPipelineSteps sample_collaborators 0 sample_deployment_ansible)) = 5"
  by (simp add: sample_deployment_ansible_def sample_deployment_def buildPipelineSteps_def
      Let_def)

text \<open>
  Claim C8.  Two builds from the same deployment record, whatever identifiers the
  generator hands out in each, give step sequences of equal length that agree position by
  position in step type and step name, and in dependency shape: at each position there is
  one list of strictly earlier positions whose step ids are the dependencies of the step
  in both builds.
\<close>

theorem buildPipelineSteps_twice:
  "length (fst (buildPipelineSteps cs1 n1 d)) = length (fst (buildPipelineSteps cs2 n2 d)) \<and>
   map step_type (fst (buildPipelineSteps cs1 n1 d)) =
     map step_type (fst (buildPipelineSteps cs2 n2 d)) \<and>
   map step_name (fst (buildPipelineSteps cs1 n1 d)) =
     map step_name (fst (buildPipelineSteps cs2 n2 d)) \<and>
   (\<forall>i < length (fst (buildPipelineSteps cs1 n1 d)).
      \<exists>js. (\<forall>j \<in> set js. j < i) \<and>
        dependencies (fst (buildPipelineSteps cs1 n1 d) ! i) =
          map (\<lambda>j. step_id (fst (buildPipelineSteps cs1 n1 d) ! j)) js \<and>
        dependencies (fst (buildPipelineSteps cs2 n2 d) ! i) =
          map (\<lambda>j. step_id (fst (buildPipelineSteps cs2 n2 d) ! j)) js)"
proof -
  let ?a = "fst (buildPipelineSteps cs1 n1 d)" and ?b = "fst (buildPipelineSteps cs2 n2 d)"
  let ?strip = "\<lambda>s. s\<lparr>step_id := [], dependencies := []\<rparr>"
  have eq: "map ?strip ?a = map ?strip ?b"
    by (rule buildPipelineSteps_fields)
  have len: "length ?a = length ?b"
    using arg_cong [OF eq, of length] by simp
  have "map step_type (map ?strip ?a) = map step_type (map ?strip ?b)"
    using eq by simp
  then have ty: "map step_type ?a = map step_type ?b"
    by (simp add: comp_def)
  have "map step_name (map ?strip ?a) = map step_name (map ?strip ?b)"
    using eq by simp
  then have nm: "map step_name ?a = map step_name ?b"
    by (simp add: comp_def)
  have shape: "\<exists>js. (\<forall>j \<in> set js. j < i) \<and>
        dependencies (?a ! i) = map (\<lambda>j. step_id (?a ! j)) js \<and>
        dependencies (?b ! i) = map (\<lambda>j. step_id (?b ! j)) js" if i: "i < length ?a" for i
  proof -
    have ib: "i < length ?b" using i len by simp
    let ?js = "if i = 0 then [] else [i - 1]"
    have "\<forall>j \<in> set ?js. j < i" by simp
    moreover have "dependencies (?a ! i) = map (\<lambda>j. step_id (?a ! j)) ?js"
      using buildPipelineSteps_dependencies [OF i] by simp
    moreover have "dependencies (?b ! i) = map (\<lambda>j. step_id (?b ! j)) ?js"
      using buildPipelineSteps_dependencies [OF ib] by simp
    ultimately show ?thesis by blast
  qed
  from len ty nm shape show ?thesis by blast
qed

text \<open>Two builds of the sample deployment, the second after seven identifiers were used.\<close>

theorem buildPipelineSteps_twice_witness:
  "map step_name (fst (buildPipelineSteps sample_collaborators 0 sample_deployment)) =
   map step_name (fst (buildPipelineSteps failing_collaborators 7 sample_deployment)) \<and>
   (\<exists>js. (\<forall>j \<in> set js. j < 3) \<and>
      dependencies (fst (buildPipelineSteps sample_collaborators 0 sample_deployment) ! 3) =
        map (\<lambda>j. step_id (fst (buildPipelineSteps sample_collaborators 0 sample_deployment) ! j)) js \<and>
      dependencies (fst (buildPipelineSteps failing_collaborators 7 sample_deployment) ! 3) =
        map (\<lambda>j. step_id (fst (buildPipelineSteps failing_collaborators 7 sample_deployment) ! j)) js)"
proof -
  have "(3::nat) < length (fst (buildPipelineSteps sample_collaborators 0 sample_deployment))"
    by (simp add: buildPipelineSteps_def sample_deployment_def Let_def)
  with buildPipelineSteps_twice [of sample_collaborators 0 sample_deployment failing_collaborators 7]
  show ?thesis by blast
qed

text \<open>
  Claim C9.  In the built sequence every step has at most one dependency, every
  dependency is the id of a step at a strictly earlier position, and the graph is a
  chain: the first step has no dependency and every other step depends exactly on the
  step before it.
\<close>

theorem buildPipelineSteps_linear_chain:
  assumes "i < length (fst (buildPipelineSteps cs n d))"
  shows "length (dependencies (fst (buildPipelineSteps cs n d) ! i)) \<le> 1 \<and>
         (\<forall>dep \<in> set (dependencies (fst (buildPipelineSteps cs n d) ! i)).
            \<exists>j < i. dep = step_id (fst (buildPipelineSteps cs n d) ! j)) \<and>
         dependencies (fst (buildPipelineSteps cs n d) ! i) =
           (if i = 0 then [] else [step_id (fst (buildPipelineSteps cs n d) ! (i - 1))])"
proof -
  have deps: "dependencies (fst (buildPipelineSteps cs n d) ! i) =
           (if i = 0 then [] else [step_id (fst (buildPipelineSteps cs n d) ! (i - 1))])"
    using assms by (rule buildPipelineSteps_dependencies)
  have "\<exists>j < i. step_id (fst (buildPipelineSteps cs n d) ! (i - 1)) =
           step_id (fst (buildPipelineSteps cs n d) ! j)" if "i \<noteq> 0"
    using that by (intro exI [of _ "i - 1"]) simp
  with deps show ?thesis by auto
qed

text \<open>The third step of the sample deployment's pipeline depends on the second.\<close>

theorem buildPipelineSteps_linear_chain_witness:
  "(2::nat) < length (fst (buildPipelineSteps sample_collaborators 0 sample_deployment)) \<and>
   dependencies (fst (buildPipelineSteps sample_collaborators 0 sample_deployment) ! 2) =
     [step_id (fst (buildPipelineSteps sample_collaborators 0 sample_deployment) ! 1)]"
proof -
  have lt: "(2::nat) < length (fst (buildPipelineSteps sample_collaborators 0 sample_deployment))"
    by (simp add: buildPipelineSteps_def sample_deployment_def Let_def)
  from buildPipelineSteps_linear_chain [OF lt] lt show ?thesis by simp
qed

section \<open>Cancellation (PipelineOrchestrator.cancelPipeline)\<close>

text \<open>
  What \<open>cancelPipeline\<close> does with a stored pipeline.  A running pipeline becomes
  cancelled with the time of the call as its end time, its steps stay as they are, and
  the owning deployment, when it is stored, becomes cancelled.  A pending pipeline is left
  as it is.
\<close>

lemma cancelPipeline_running:
  "(pipelines w pid = Some p \<and> pipeline_status p = PRunning \<longrightarrow>
      fst (cancelPipeline pid w) = Inr () \<and>
      pipelines (snd (cancelPipeline pid w)) =
        (pipelines w)(pid \<mapsto> p\<lparr>pipeline_status := PCancelled, endTime := Some (clock w)\<rparr>) \<and>
      deployments (snd (cancelPipeline pid w)) =
        (case deployments w (deploymentId p) of
           None \<Rightarrow> deployments w
         | Some d \<Rightarrow> (deployments w)(deploymentId p \<mapsto> d\<lparr>deployment_status := DCancelled\<rparr>))) \<and>
   (pipelines w pid = Some p \<and> pipeline_status p = PPending \<longrightarrow>
      cancelPipeline pid w = (Inr (), w))"
  by (simp add: cancelPipeline_def new_Date_def findByIdAndUpdate_def Let_def
      split: option.splits)

text \<open>
  A stored pipeline that is completed, failed or cancelled: \<open>cancelPipeline\<close> returns with
  no error and changes nothing.
\<close>

lemma cancelPipeline_terminal:
  assumes "pipelines w pid = Some p"
    and "pipeline_status p = PCompleted \<or> pipeline_status p = PFailed \<or>
         pipeline_status p = PCancelled"
  shows "cancelPipeline pid w = (Inr (), w)"
  using assms by (auto simp add: cancelPipeline_def)

text \<open>
  Claim C4 at two stored pipelines.  For a pending pipeline with a running deployment,
  \<open>cancelPipeline\<close> changes nothing: the pipeline stays pending and the deployment stays
  running, where the claim has them cancelled.  For a running pipeline whose two steps
  are running and pending, the steps keep their status after \<open>cancelPipeline\<close>, where the
  claim has them cancelled.
\<close>

theorem cancelPipeline_pending_and_steps:
  "pipeline_status (the (pipelines (world_with PPending DRunning) ''pipe-1'')) = PPending \<and>
   pipeline_status
     (the (pipelines (snd (cancelPipeline ''pipe-1'' (world_with PPending DRunning)))
        ''pipe-1'')) = PPending \<and>
   deployment_status
     (the (deployments (snd (cancelPipeline ''pipe-1'' (world_with PPending DRunning)))
        ''dep-1'')) = DRunning \<and>
   pipeline_status (the (pipelines (world_with PRunning DRunning) ''pipe-1'')) = PRunning \<and>
   map step_status (steps (the (pipelines (world_with PRunning DRunning) ''pipe-1''))) =
     [Running, Pending] \<and>
   map step_status
     (steps (the (pipelines (snd (cancelPipeline ''pipe-1'' (world_with PRunning DRunning)))
        ''pipe-1''))) = [Running, Pending]"
  by (simp add: cancelPipeline_def world_with_def stored_pipeline_def new_step_def
      new_Date_def findByIdAndUpdate_def sample_world_def Let_def)

text \<open>
  Claim C5 at a stored pipeline that is completed: \<open>cancelPipeline\<close> does not fail, it
  returns with no error (and with the world as it was), where the claim has it fail with
  an error.
\<close>

theorem cancelPipeline_terminal_no_error:
  "pipeline_status (the (pipelines (world_with PCompleted DCompleted) ''pipe-1'')) = PCompleted \<and>
   cancelPipeline ''pipe-1'' (world_with PCompleted DCompleted) =
     (Inr (), world_with PCompleted DCompleted)"
  by (simp add: cancelPipeline_def world_with_def)

text \<open>
  Claim C10.  Cancel with an identifier that matches no stored pipeline returns normally,
  with no error, and changes no pipeline, no deployment and nothing else.
\<close>

theorem cancelPipeline_unknown:
  "pipelines w pid = None \<Longrightarrow> cancelPipeline pid w = (Inr (), w)"
  by (simp add: cancelPipeline_def)

text \<open>No pipeline is stored under \<open>pipe-2\<close>.\<close>

theorem cancelPipeline_unknown_witness:
  "pipelines (world_with PRunning DRunning) ''pipe-2'' = None \<and>
   cancelPipeline ''pipe-2'' (world_with PRunning DRunning) = (Inr (), world_with PRunning DRunning)"
proof -
  have a: "pipelines (world_with PRunning DRunning) ''pipe-2'' = None"
    by (simp add: world_with_def)
  from cancelPipeline_unknown [OF a] a show ?thesis by simp
qed

section \<open>Properties of the cancel route\<close>

text \<open>
  The cancel route answers 404 for a pipeline that is not stored, and 400, with nothing
  changed, for a stored pipeline that is completed, failed or cancelled.
\<close>

lemma cancel_route_not_found:
  "pipelines w pid = None \<Longrightarrow> cancel_route pid w = (CancelError 404 ''Pipeline not found'', w)"
  by (simp add: cancel_route_def)

lemma cancel_route_terminal:
  assumes "pipelines w pid = Some p"
    and "pipeline_status p = PCompleted \<or> pipeline_status p = PFailed \<or>
         pipeline_status p = PCancelled"
  shows "cancel_route pid w =
           (CancelError 400 ''Cannot cancel pipeline that is not running or pending'', w)"
  using assms by (auto simp add: cancel_route_def)

text \<open>
  The steps as the cancel route repaints them: as many as before, a running or pending
  step cancelled, a running step with an end time, any other step as it was.
\<close>

lemma cancel_steps_Cons:
  "cancel_steps (step # rest) w =
     (step\<lparr>step_status :=
             (if step_status step = Running \<or> step_status step = Pending
              then Cancelled else step_status step),
           step_endTime :=
             (if step_status step = Running then Some (clock w) else step_endTime step)\<rparr> #
        fst (cancel_steps rest
               (if step_status step = Running then w\<lparr>clock := clock w + 1\<rparr> else w)),
      snd (cancel_steps rest
             (if step_status step = Running then w\<lparr>clock := clock w + 1\<rparr> else w)))"
  by (simp add: Let_def new_Date_def split: prod.splits)

lemma cancel_steps_stores:
  "pipelines (snd (cancel_steps ss w)) = pipelines w \<and>
   deployments (snd (cancel_steps ss w)) = deployments w"
proof (induction ss arbitrary: w)
  case Nil
  show ?case by simp
next
  case (Cons step rest)
  show ?case
    using Cons [of w] Cons [of "w\<lparr>clock := clock w + 1\<rparr>"]
    by (simp only: cancel_steps_Cons snd_conv split: if_splits) simp
qed

lemma cancel_steps_repaint:
  "length (fst (cancel_steps ss w)) = length ss \<and>
   (\<forall>i < length ss.
      step_status (fst (cancel_steps ss w) ! i) =
        (if step_status (ss ! i) = Running \<or> step_status (ss ! i) = Pending
         then Cancelled else step_status (ss ! i)) \<and>
      (step_status (ss ! i) = Running \<longrightarrow> step_endTime (fst (cancel_steps ss w) ! i) \<noteq> None) \<and>
      (step_status (ss ! i) \<noteq> Running \<longrightarrow>
         step_endTime (fst (cancel_steps ss w) ! i) = step_endTime (ss ! i)))"
proof (induction ss arbitrary: w)
  case Nil
  show ?case by simp
next
  case (Cons step rest)
  let ?w1 = "if step_status step = Running then w\<lparr>clock := clock w + 1\<rparr> else w"
  note IH = Cons [of ?w1]
  show ?case
  proof (intro conjI allI impI)
    show "length (fst (cancel_steps (step # rest) w)) = length (step # rest)"
      using IH by (simp only: cancel_steps_Cons fst_conv) simp
  next
    fix i assume i: "i < length (step # rest)"
    show "step_status (fst (cancel_steps (step # rest) w) ! i) =
        (if step_status ((step # rest) ! i) = Running \<or> step_status ((step # rest) ! i) = Pending
         then Cancelled else step_status ((step # rest) ! i))"
      using IH i by (cases i) (simp_all only: cancel_steps_Cons fst_conv, simp_all)
  next
    fix i assume i: "i < length (step # rest)"
      and r: "step_status ((step # rest) ! i) = Running"
    show "step_endTime (fst (cancel_steps (step # rest) w) ! i) \<noteq> None"
      using IH i r by (cases i) (simp_all only: cancel_steps_Cons fst_conv, simp_all)
  next
    fix i assume i: "i < length (step # rest)"
      and r: "step_status ((step # rest) ! i) \<noteq> Running"
    show "step_endTime (fst (cancel_steps (step # rest) w) ! i) = step_endTime ((step # rest) ! i)"
      using IH i r by (cases i) (simp_all only: cancel_steps_Cons fst_conv, simp_all)
  qed
qed

text \<open>
  A step that the route repaints to cancelled is outside the enumerated step statuses, so
  the route's \<open>save()\<close> rejects and the route answers 500 with nothing stored.
\<close>

lemma cancel_route_rejected:
  assumes p: "pipelines w pid = Some p"
    and st: "pipeline_status p = PRunning \<or> pipeline_status p = PPending"
    and i: "i < length (steps p)"
    and run: "step_status (steps p ! i) = Running \<or> step_status (steps p ! i) = Pending"
  shows "fst (cancel_route pid w) = CancelError 500 ''Failed to cancel pipeline'' \<and>
         pipelines (snd (cancel_route pid w)) = pipelines w \<and>
         deployments (snd (cancel_route pid w)) = deployments w"
proof -
  let ?w1 = "w\<lparr>clock := clock w + 1\<rparr>"
  from cancel_steps_repaint [of "steps p" ?w1] i run
  have len: "i < length (fst (cancel_steps (steps p) ?w1))"
    and c: "step_status (fst (cancel_steps (steps p) ?w1) ! i) = Cancelled"
    by simp_all
  have "\<not> list_all (\<lambda>s. step_type s \<in> set step_type_enum \<and>
          step_status s \<in> set step_status_enum) (fst (cancel_steps (steps p) ?w1))"
  proof
    assume "list_all (\<lambda>s. step_type s \<in> set step_type_enum \<and>
          step_status s \<in> set step_status_enum) (fst (cancel_steps (steps p) ?w1))"
    with len have "step_status (fst (cancel_steps (steps p) ?w1) ! i) \<in> set step_status_enum"
      by (simp add: list_all_length)
    with c show False by (simp add: step_status_enum_def)
  qed
  then have "\<not> pipeline_schema_ok
      (p\<lparr>pipeline_status := PCancelled, endTime := Some (clock w),
         steps := fst (cancel_steps (steps p) ?w1)\<rparr>)"
    by (simp add: pipeline_schema_ok_def)
  moreover note cancel_steps_stores [of "steps p" ?w1]
  ultimately show ?thesis
    using p st
    by (auto simp add: cancel_route_def Let_def new_Date_def split: prod.splits)
qed

text \<open>
  With no step to repaint and step types that the schema admits, the cancel route
  cancels a running or pending pipeline and, when it is running, the owning deployment.
\<close>

lemma cancel_route_cancelled:
  assumes p: "pipelines w pid = Some p"
    and st: "pipeline_status p = PRunning \<or> pipeline_status p = PPending"
    and none: "\<forall>s \<in> set (steps p). step_status s \<noteq> Running \<and> step_status s \<noteq> Pending"
    and ok: "pipeline_schema_ok p"
    and d: "deployments w (deploymentId p) = Some d" "deployment_status d = DRunning"
  shows "pipelines (snd (cancel_route pid w)) pid =
           Some (p\<lparr>pipeline_status := PCancelled, endTime := Some (clock w)\<rparr>) \<and>
         deployments (snd (cancel_route pid w)) (deploymentId p) =
           Some (d\<lparr>deployment_status := DCancelled\<rparr>)"
proof -
  have same: "cancel_steps ss v = (ss, v)"
    if "\<forall>s \<in> set ss. step_status s \<noteq> Running \<and> step_status s \<noteq> Pending" for ss v
    using that by (induction ss arbitrary: v) simp_all
  from ok have ok': "pipeline_schema_ok
      (p\<lparr>pipeline_status := PCancelled, endTime := Some (clock w), steps := steps p\<rparr>)"
    by (simp add: pipeline_schema_ok_def)
  show ?thesis
    using p st d ok'
    by (auto simp add: cancel_route_def same [OF none] Let_def new_Date_def)
qed

text \<open>
  The cancel route at the stored sample pipeline: 400 with nothing changed when the
  pipeline is completed; when it is pending, the repaint makes both of its steps
  cancelled, and the save of these steps is rejected.
\<close>

lemma cancel_route_samples:
  "cancel_route ''pipe-1'' (world_with PCompleted DCompleted) =
     (CancelError 400 ''Cannot cancel pipeline that is not running or pending'',
      world_with PCompleted DCompleted) \<and>
   map step_status (fst (cancel_steps (steps stored_pipeline) sample_world)) =
     [Cancelled, Cancelled] \<and>
   fst (cancel_route ''pipe-1'' (world_with PPending DRunning)) =
     CancelError 500 ''Failed to cancel pipeline''"
  by (simp add: cancel_route_def world_with_def stored_pipeline_def new_step_def
      new_Date_def Let_def pipeline_schema_ok_def step_status_enum_def)

section \<open>Properties of the step executor\<close>

text \<open>
  Whether the \<open>switch\<close> throws, and with which message, does not depend on the status,
  the start time or the logs of the step.
\<close>

lemma run_switch_thrown:
  "fst (run_switch cs pid i (s\<lparr>step_status := a, step_startTime := b, logs := c\<rparr>) w) = Inl msg \<longleftrightarrow>
   fst (run_switch cs pid i s w) = Inl msg"
proof -
  consider (clone) "step_type s = ''clone''"
    | (tfplan) "step_type s = ''terraform-plan''"
    | (tfapply) "step_type s = ''terraform-apply''"
    | (helm) "step_type s = ''helm-deploy''"
    | (ansible) "step_type s = ''ansible-run''"
    | (other) "step_type s \<noteq> ''clone''" "step_type s \<noteq> ''terraform-plan''"
        "step_type s \<noteq> ''terraform-apply''" "step_type s \<noteq> ''helm-deploy''"
        "step_type s \<noteq> ''ansible-run''"
    by blast
  then show ?thesis
  proof cases
    case clone
    then show ?thesis by (simp add: run_switch_def split: sum.splits)
  next
    case tfplan
    then show ?thesis by (simp add: run_switch_def split: sum.splits)
  next
    case tfapply
    then show ?thesis by (simp add: run_switch_def split: sum.splits)
  next
    case helm
    then show ?thesis by (simp add: run_switch_def split: sum.splits)
  next
    case ansible
    then show ?thesis by (simp add: run_switch_def split: sum.splits)
  next
    case other
    then show ?thesis by (simp add: run_switch_def)
  qed
qed

text \<open>
  The \<open>switch\<close> changes nothing in the world but the log of service calls, to which it
  adds at most one call, made for the step at position \<open>i\<close>.
\<close>

lemma run_switch_world:
  "\<exists>xs. snd (run_switch cs pid i s w) = w\<lparr>service_calls := service_calls w @ xs\<rparr> \<and>
        (\<forall>c \<in> set xs. snd (snd c) = i)"
proof -
  have a: "\<exists>xs. w = w\<lparr>service_calls := service_calls w @ xs\<rparr> \<and> (\<forall>c \<in> set xs. snd (snd c) = i)"
    by (rule exI [of _ "[]"]) simp
  have b: "\<exists>xs. log_call operation pid i w = w\<lparr>service_calls := service_calls w @ xs\<rparr> \<and>
        (\<forall>c \<in> set xs. snd (snd c) = i)" for operation
    by (rule exI [of _ "[(operation, pid, i)]"]) (simp add: log_call_def)
  show ?thesis
    unfolding run_switch_def using a b by (simp split: if_splits)
qed

text \<open>
  \<open>executeStep\<close> in one equation, given what the \<open>switch\<close> returns.
\<close>

lemma executeStep_unfold:
  assumes rs: "run_switch cs (pipeline_id p) i (started (steps p ! i) (clock w))
             (w\<lparr>clock := clock w + 1\<rparr>) =
           (r, w\<lparr>clock := clock w + 1, service_calls := service_calls w @ xs\<rparr>)"
  shows "executeStep cs i p w =
     (p\<lparr>steps := (steps p)[i := finished r (started (steps p ! i) (clock w)) (clock w + 1)]\<rparr>,
      save_pipeline
        (p\<lparr>steps := (steps p)[i := finished r (started (steps p ! i) (clock w)) (clock w + 1)]\<rparr>)
        (w\<lparr>service_calls := service_calls w @ xs, clock := clock w + 2\<rparr>))"
proof -
  note rs' = rs [unfolded started_def, simplified]
  show ?thesis
    by (cases r) (simp_all add: executeStep_def Let_def new_Date_def rs' finished_def started_def)
qed

lemma finished_status:
  "step_status (finished r s2 t) = Completed \<or> step_status (finished r s2 t) = Failed"
  by (simp add: finished_def split: sum.splits)

lemma executeStep_shape:
  obtains s' xs where
    "executeStep cs i p w =
       (p\<lparr>steps := (steps p)[i := s']\<rparr>,
        save_pipeline (p\<lparr>steps := (steps p)[i := s']\<rparr>)
          (w\<lparr>service_calls := service_calls w @ xs, clock := clock w + 2\<rparr>))"
    and "step_status s' = Completed \<or> step_status s' = Failed"
    and "\<forall>c \<in> set xs. snd (snd c) = i"
proof -
  let ?rs = "run_switch cs (pipeline_id p) i (started (steps p ! i) (clock w))
             (w\<lparr>clock := clock w + 1\<rparr>)"
  obtain xs where xs: "snd ?rs =
       (w\<lparr>clock := clock w + 1\<rparr>)\<lparr>service_calls := service_calls (w\<lparr>clock := clock w + 1\<rparr>) @ xs\<rparr>"
    and pos: "\<forall>c \<in> set xs. snd (snd c) = i"
    using run_switch_world by blast
  from xs have "?rs = (fst ?rs, w\<lparr>clock := clock w + 1, service_calls := service_calls w @ xs\<rparr>)"
    by (simp add: prod_eq_iff)
  from executeStep_unfold [OF this] finished_status pos that show thesis
    by blast
qed

text \<open>
  The sample pipeline's steps, written out.
\<close>

lemma sample_steps:
  "steps sample_pipeline =
     [new_step ''u'' ''Clone Repository'' ''clone'' []
        (CloneStepConfig ''https://github.com/acme/shop'' ''main''),
      new_step ''uu'' ''Terraform Plan'' ''terraform-plan'' [''u'']
        (TerraformStepConfig sample_terraform),
      new_step ''uuu'' ''Terraform Apply'' ''terraform-apply'' [''uu'']
        (TerraformStepConfig sample_terraform),
      new_step ''uuuu'' ''Helm Deploy'' ''helm-deploy'' [''uuu'']
        (HelmStepConfig sample_helm ''cluster-1'' ''shop'')]"
  by (simp add: sample_pipeline_def buildPipelineSteps_def sample_deployment_def
      sample_collaborators_def new_step_def Let_def eval_nat_numeral)

lemma sample_pipeline_fields:
  "pipeline_id sample_pipeline = ''pipe-1''"
  "deploymentId sample_pipeline = ''dep-1''"
  "pipeline_status sample_pipeline = PRunning"
  by (simp_all add: sample_pipeline_def)

text \<open>
  Claim C6.  When the call that \<open>executeStep\<close> makes for the step at position \<open>i\<close> throws
  an error with message \<open>msg\<close> (the premise states it for the \<open>switch\<close> at the clock
  reading at which \<open>executeStep\<close> runs it), \<open>executeStep\<close> still returns its pipeline and
  world: the step's status is failed, its logs end with the start line and the line
  \<open>Step failed: msg\<close>, its end time is set, every other step is as it was, and the pipeline
  is saved.  The thrown error has become a value; nothing is thrown further.
\<close>

theorem executeStep_failure:
  assumes i: "i < length (steps p)"
    and thrown: "fst (run_switch cs (pipeline_id p) i (steps p ! i) (snd (new_Date w))) = Inl msg"
  shows "steps (fst (executeStep cs i p w)) ! i =
           (steps p ! i)
             \<lparr>step_status := Failed, step_startTime := Some (clock w),
              step_endTime := Some (clock w + 1),
              logs := logs (steps p ! i) @
                [''Starting step: '' @ step_name (steps p ! i), ''Step failed: '' @ msg]\<rparr> \<and>
         (\<forall>j. j < length (steps p) \<and> j \<noteq> i \<longrightarrow>
            steps (fst (executeStep cs i p w)) ! j = steps p ! j) \<and>
         pipelines (snd (executeStep cs i p w)) (pipeline_id p) =
           Some (fst (executeStep cs i p w))"
proof -
  let ?rs = "run_switch cs (pipeline_id p) i (started (steps p ! i) (clock w))
             (w\<lparr>clock := clock w + 1\<rparr>)"
  obtain xs where "snd ?rs =
       (w\<lparr>clock := clock w + 1\<rparr>)\<lparr>service_calls := service_calls (w\<lparr>clock := clock w + 1\<rparr>) @ xs\<rparr>"
    using run_switch_world by blast
  moreover have "fst ?rs = Inl msg"
    using thrown by (simp add: started_def run_switch_thrown new_Date_def)
  ultimately have "?rs = (Inl msg, w\<lparr>clock := clock w + 1, service_calls := service_calls w @ xs\<rparr>)"
    by (simp add: prod_eq_iff)
  from executeStep_unfold [OF this] i show ?thesis
    by (simp add: finished_def started_def save_pipeline_def)
qed

text \<open>
  The third step of the sample pipeline, with a \<open>terraform apply\<close> that throws.
\<close>

theorem executeStep_failure_witness:
  "(2::nat) < length (steps sample_pipeline) \<and>
   fst (run_switch failing_collaborators (pipeline_id sample_pipeline) 2
          (steps sample_pipeline ! 2) (snd (new_Date sample_world))) =
     Inl ''apply exited with code 1'' \<and>
   step_status (steps (fst (executeStep failing_collaborators 2 sample_pipeline sample_world)) ! 2) =
     Failed \<and>
   logs (steps (fst (executeStep failing_collaborators 2 sample_pipeline sample_world)) ! 2) =
     [''Starting step: Terraform Apply'', ''Step failed: apply exited with code 1''] \<and>
   step_endTime (steps (fst (executeStep failing_collaborators 2 sample_pipeline sample_world)) ! 2) =
     Some 101"
proof -
  have i: "(2::nat) < length (steps sample_pipeline)"
    by (simp add: sample_steps)
  have thrown: "fst (run_switch failing_collaborators (pipeline_id sample_pipeline) 2
          (steps sample_pipeline ! 2) (snd (new_Date sample_world))) =
     Inl ''apply exited with code 1''"
    by (simp add: run_switch_def sample_steps new_step_def failing_collaborators_def
        sample_collaborators_def)
  have c: "clock sample_world = 100"
    by (simp add: sample_world_def)
  have s2: "steps sample_pipeline ! 2 =
      new_step ''uuu'' ''Terraform Apply'' ''terraform-apply'' [''uu'']
        (TerraformStepConfig sample_terraform)"
    by (simp add: sample_steps)
  from executeStep_failure [OF i thrown]
  have "steps (fst (executeStep failing_collaborators 2 sample_pipeline sample_world)) ! 2 =
     (steps sample_pipeline ! 2)
       \<lparr>step_status := Failed, step_startTime := Some (clock sample_world),
        step_endTime := Some (clock sample_world + 1),
        logs := logs (steps sample_pipeline ! 2) @
          [''Starting step: '' @ step_name (steps sample_pipeline ! 2),
           ''Step failed: '' @ ''apply exited with code 1'']\<rparr>"
    by blast
  then have "step_status (steps (fst (executeStep failing_collaborators 2 sample_pipeline sample_world)) ! 2) =
     Failed \<and>
   logs (steps (fst (executeStep failing_collaborators 2 sample_pipeline sample_world)) ! 2) =
     [''Starting step: Terraform Apply'', ''Step failed: apply exited with code 1''] \<and>
   step_endTime (steps (fst (executeStep failing_collaborators 2 sample_pipeline sample_world)) ! 2) =
     Some 101"
    by (simp add: s2 c new_step_def)
  with i thrown show ?thesis by blast
qed

section \<open>Properties of the runner\<close>

text \<open>
  The loop, one equation for each of its four ways through the body.
\<close>

lemma steps_loop_done:
  "\<not> i < length (steps p) \<Longrightarrow> steps_loop cs i p w = (p, w)"
  by (simp add: steps_loop.simps)

lemma steps_loop_skip:
  "i < length (steps p) \<Longrightarrow> \<not> areDependenciesCompleted (steps p ! i) (steps p) \<Longrightarrow>
   steps_loop cs i p w =
     steps_loop cs (i + 1) (p\<lparr>steps := (steps p)[i := (steps p ! i)\<lparr>step_status := Skipped\<rparr>]\<rparr>) w"
  by (subst steps_loop.simps) simp

lemma steps_loop_failed:
  "i < length (steps p) \<Longrightarrow> areDependenciesCompleted (steps p ! i) (steps p) \<Longrightarrow>
   executeStep cs i p w = (p1, w1) \<Longrightarrow> step_status (steps p1 ! i) = Failed \<Longrightarrow>
   steps_loop cs i p w =
     (p1\<lparr>pipeline_status := PFailed\<rparr>, emit_pipeline_update p1 (steps p1 ! i) w1)"
  by (subst steps_loop.simps) simp

lemma steps_loop_next:
  "i < length (steps p) \<Longrightarrow> areDependenciesCompleted (steps p ! i) (steps p) \<Longrightarrow>
   executeStep cs i p w = (p1, w1) \<Longrightarrow> step_status (steps p1 ! i) \<noteq> Failed \<Longrightarrow>
   steps_loop cs i p w =
     steps_loop cs (i + 1) p1 (emit_pipeline_update p1 (steps p1 ! i) w1)"
  by (subst steps_loop.simps) simp

lemma steps_loop_frame:
  "steps_loop cs i p w = (p', w') \<Longrightarrow>
   length (steps p') = length (steps p) \<and> pipeline_id p' = pipeline_id p \<and>
   deploymentId p' = deploymentId p \<and> deployments w' = deployments w \<and>
   (\<forall>j < i. steps p' ! j = steps p ! j)"
proof (induction cs i p w arbitrary: p' w' rule: steps_loop.induct)
  case (1 cs i p w)
  consider (stop) "\<not> i < length (steps p)"
    | (skipped) "i < length (steps p)" "\<not> areDependenciesCompleted (steps p ! i) (steps p)"
    | (exec) "i < length (steps p)" "areDependenciesCompleted (steps p ! i) (steps p)"
    by blast
  then show ?case
  proof cases
    case stop
    with "1.prems" show ?thesis by (simp add: steps_loop_done)
  next
    case skipped
    let ?p2 = "p\<lparr>steps := (steps p)[i := (steps p ! i)\<lparr>step_status := Skipped\<rparr>]\<rparr>"
    from "1.prems" skipped have rec: "steps_loop cs (i + 1) ?p2 w = (p', w')"
      by (simp add: steps_loop_skip)
    from "1.IH"(1) [OF skipped rec] show ?thesis by simp
  next
    case exec
    obtain s' xs where ex: "executeStep cs i p w =
       (p\<lparr>steps := (steps p)[i := s']\<rparr>,
        save_pipeline (p\<lparr>steps := (steps p)[i := s']\<rparr>)
          (w\<lparr>service_calls := service_calls w @ xs, clock := clock w + 2\<rparr>))"
      by (rule executeStep_shape)
    let ?p1 = "p\<lparr>steps := (steps p)[i := s']\<rparr>"
    let ?w1 = "save_pipeline ?p1 (w\<lparr>service_calls := service_calls w @ xs, clock := clock w + 2\<rparr>)"
    let ?w2 = "emit_pipeline_update ?p1 (steps ?p1 ! i) ?w1"
    have dw: "deployments ?w2 = deployments w"
      by (simp add: emit_pipeline_update_def save_pipeline_def)
    show ?thesis
    proof (cases "step_status (steps ?p1 ! i) = Failed")
      case True
      from steps_loop_failed [OF exec ex True] "1.prems"
      have "p' = ?p1\<lparr>pipeline_status := PFailed\<rparr>" and "w' = ?w2" by simp_all
      with dw show ?thesis by simp
    next
      case False
      from steps_loop_next [OF exec ex False] "1.prems"
      have rec: "steps_loop cs (i + 1) ?p1 ?w2 = (p', w')" by simp
      have nn: "\<not> \<not> areDependenciesCompleted (steps p ! i) (steps p)" using exec by simp
      from "1.IH"(2) [OF exec(1) nn ex [symmetric] refl refl False rec] dw
      show ?thesis by simp
    qed
  qed
qed


text \<open>
  \<open>executePipeline\<close> in one equation, given what the loop returns.
\<close>

lemma executePipeline_result:
  assumes loop: "steps_loop cs 0 p w = (p1, w1)"
  shows "executePipeline cs p w =
    (if pipeline_status p1 \<noteq> PFailed then
       (p1\<lparr>pipeline_status := PCompleted, endTime := Some (clock w1 + 1)\<rparr>,
        save_pipeline (p1\<lparr>pipeline_status := PCompleted, endTime := Some (clock w1 + 1)\<rparr>)
          (w1\<lparr>clock := clock w1 + 2,
              deployments :=
                (case deployments w1 (deploymentId p1) of
                   None \<Rightarrow> deployments w1
                 | Some d \<Rightarrow> (deployments w1)(deploymentId p1 \<mapsto>
                     d\<lparr>deployment_status := DCompleted, lastDeployedAt := Some (clock w1)\<rparr>))\<rparr>))
     else
       (p1\<lparr>endTime := Some (clock w1)\<rparr>,
        save_pipeline (p1\<lparr>endTime := Some (clock w1)\<rparr>)
          (w1\<lparr>clock := clock w1 + 1,
              deployments :=
                (case deployments w1 (deploymentId p1) of
                   None \<Rightarrow> deployments w1
                 | Some d \<Rightarrow> (deployments w1)(deploymentId p1 \<mapsto>
                     d\<lparr>deployment_status := DFailed\<rparr>))\<rparr>)))"
  by (simp add: executePipeline_def loop Let_def new_Date_def findByIdAndUpdate_def
      save_pipeline_def split: option.splits)

text \<open>
  The two runs of the sample pipeline, evaluated: with a \<open>terraform apply\<close> that throws,
  and with services that all succeed.
\<close>

lemmas run_defs =
  executePipeline_def steps_loop.simps new_step_def areDependenciesCompleted_def
  executeStep_def run_switch_def new_Date_def failing_collaborators_def
  sample_collaborators_def Let_def eval_nat_numeral findByIdAndUpdate_def
  save_pipeline_def emit_pipeline_update_def log_call_def

lemma failing_run_pipeline:
  "pipeline_status (fst (executePipeline failing_collaborators sample_pipeline sample_world)) =
     PFailed \<and>
   map step_status
     (steps (fst (executePipeline failing_collaborators sample_pipeline sample_world))) =
     [Completed, Completed, Failed, Pending] \<and>
   step_status
     (steps (fst (executePipeline failing_collaborators sample_pipeline sample_world)) ! 2) =
     Failed \<and>
   steps (fst (executePipeline failing_collaborators sample_pipeline sample_world)) ! 3 =
     steps sample_pipeline ! 3"
  by (simp add: run_defs sample_steps sample_pipeline_fields split: prod.splits)

lemma sample_run_pipeline:
  "pipeline_status (fst (executePipeline sample_collaborators sample_pipeline sample_world)) =
     PCompleted \<and>
   map step_status
     (steps (fst (executePipeline sample_collaborators sample_pipeline sample_world))) =
     [Completed, Completed, Completed, Completed]"
  by (simp add: run_defs sample_steps sample_pipeline_fields split: prod.splits)




text \<open>
  Claim C7.  Every run of the runner ends with the pipeline completed or failed, its end
  time set and the pipeline saved, and the stored owning deployment follows it: when the
  pipeline completed, the deployment's status is completed and its last-deployed-at
  timestamp is the time at which the loop ended; when the pipeline failed, the
  deployment's status is failed and the rest of its record, last-deployed-at included, is
  as it was.  No other deployment changes.
\<close>

theorem executePipeline_deployment:
  assumes d: "deployments w (deploymentId p) = Some d"
  shows "(pipeline_status (fst (executePipeline cs p w)) = PCompleted \<and>
          deployments (snd (executePipeline cs p w)) =
            (deployments w)(deploymentId p \<mapsto>
               d\<lparr>deployment_status := DCompleted,
                 lastDeployedAt := Some (clock (snd (steps_loop cs 0 p w)))\<rparr>) \<or>
          pipeline_status (fst (executePipeline cs p w)) = PFailed \<and>
          deployments (snd (executePipeline cs p w)) =
            (deployments w)(deploymentId p \<mapsto> d\<lparr>deployment_status := DFailed\<rparr>)) \<and>
         endTime (fst (executePipeline cs p w)) \<noteq> None \<and>
         pipelines (snd (executePipeline cs p w)) (pipeline_id p) =
           Some (fst (executePipeline cs p w))"
proof -
  obtain p1 w1 where loop: "steps_loop cs 0 p w = (p1, w1)"
    by (cases "steps_loop cs 0 p w")
  from steps_loop_frame [OF loop]
  have frame: "pipeline_id p1 = pipeline_id p" "deploymentId p1 = deploymentId p"
    "deployments w1 = deployments w"
    by simp_all
  show ?thesis
    by (simp add: executePipeline_result [OF loop] loop frame d save_pipeline_def)
qed

text \<open>
  The two runs of the sample pipeline.
\<close>

theorem executePipeline_deployment_witness:
  "deployments sample_world (deploymentId sample_pipeline) = Some sample_deployment \<and>
   pipeline_status (fst (executePipeline sample_collaborators sample_pipeline sample_world)) =
     PCompleted \<and>
   map_option deployment_status
     (deployments (snd (executePipeline sample_collaborators sample_pipeline sample_world))
        ''dep-1'') = Some DCompleted \<and>
   pipeline_status (fst (executePipeline failing_collaborators sample_pipeline sample_world)) =
     PFailed \<and>
   deployments (snd (executePipeline failing_collaborators sample_pipeline sample_world)) =
     (deployments sample_world)(''dep-1'' \<mapsto> sample_deployment\<lparr>deployment_status := DFailed\<rparr>)"
proof -
  have d: "deployments sample_world (deploymentId sample_pipeline) = Some sample_deployment"
    by (simp add: sample_world_def sample_pipeline_fields)
  have ok: "pipeline_status
      (fst (executePipeline sample_collaborators sample_pipeline sample_world)) = PCompleted"
    by (simp add: sample_run_pipeline)
  have ko: "pipeline_status
      (fst (executePipeline failing_collaborators sample_pipeline sample_world)) = PFailed"
    by (simp add: failing_run_pipeline)
  from executePipeline_deployment [OF d, of sample_collaborators] ok
  have a: "map_option deployment_status
     (deployments (snd (executePipeline sample_collaborators sample_pipeline sample_world))
        ''dep-1'') = Some DCompleted"
    by (simp add: sample_pipeline_fields)
  from executePipeline_deployment [OF d, of failing_collaborators] ko
  have b: "deployments (snd (executePipeline failing_collaborators sample_pipeline sample_world)) =
     (deployments sample_world)(''dep-1'' \<mapsto> sample_deployment\<lparr>deployment_status := DFailed\<rparr>)"
    by (simp add: sample_pipeline_fields)
  from d ok ko a b show ?thesis by blast
qed

section \<open>Triggering\<close>

text \<open>
  \<open>startPipeline\<close> fails for a deployment that is not stored, and only then: for a stored
  deployment, whatever its status, it marks the deployment running, stores a running
  pipeline built from it and returns the pipeline's id.  The trigger route answers 404
  for a missing deployment and 400, changing nothing, for a running one; for any other
  deployment it stores a pending pipeline and marks the deployment running when the
  deployment's type is one that the step schema admits, and answers 500 with nothing
  stored when it is not.
\<close>

lemma startPipeline_not_found:
  "deployments w depId = None \<Longrightarrow>
   startPipeline cs depId by w =
     (Inl (Error (''Deployment '' @ depId @ '' not found'')),
      w\<lparr>uuid_calls := uuid_calls w + 1\<rparr>)"
  by (simp add: startPipeline_def next_uuid_def)

lemma startPipeline_found:
  assumes "deployments w depId = Some d"
  shows "\<exists>p. fst (startPipeline cs depId by w) = Inr (uuidv4 cs (uuid_calls w), p) \<and>
           pipeline_id p = uuidv4 cs (uuid_calls w) \<and> deploymentId p = depId \<and>
           pipeline_status p = PRunning \<and>
           steps p = fst (buildPipelineSteps cs (uuid_calls w + 1)
                            (d\<lparr>deployment_status := DRunning\<rparr>)) \<and>
           pipelines (snd (startPipeline cs depId by w)) (uuidv4 cs (uuid_calls w)) = Some p \<and>
           deployments (snd (startPipeline cs depId by w)) depId =
             Some (d\<lparr>deployment_status := DRunning\<rparr>)"
  using assms
  by (simp add: startPipeline_def next_uuid_def new_Date_def save_pipeline_def Let_def
      split: prod.splits)

lemma trigger_route_not_found:
  "deployments w depId = None \<Longrightarrow>
   trigger_route cs depId email w = (TriggerError 404 ''Deployment not found'', w)"
  by (simp add: trigger_route_def)

lemma trigger_route_conflict:
  "deployments w depId = Some d \<Longrightarrow> deployment_status d = DRunning \<Longrightarrow>
   trigger_route cs depId email w = (TriggerError 400 ''Deployment is already running'', w)"
  by (simp add: trigger_route_def)

lemma trigger_route_started:
  assumes "deployments w depId = Some d" and "deployment_status d \<noteq> DRunning"
    and "deploymentType d = DtTerraform \<or> deploymentType d = DtHelm \<or>
         deploymentType d = DtAnsible"
  shows "fst (trigger_route cs depId email w) = TriggerOk (uuidv4 cs (uuid_calls w)) \<and>
         map_option pipeline_status
           (pipelines (snd (trigger_route cs depId email w)) (uuidv4 cs (uuid_calls w))) =
           Some PPending \<and>
         deployments (snd (trigger_route cs depId email w)) depId =
           Some (d\<lparr>deployment_status := DRunning, lastDeployedAt := Some (clock w + 1)\<rparr>)"
  using assms
  by (auto simp add: trigger_route_def next_uuid_def new_Date_def save_pipeline_def Let_def
      pipeline_schema_ok_def step_type_enum_def step_status_enum_def route_step_def
      new_step_def)

lemma trigger_route_rejected:
  assumes "deployments w depId = Some d" and "deployment_status d \<noteq> DRunning"
    and "deploymentType d \<noteq> DtTerraform" and "deploymentType d \<noteq> DtHelm"
    and "deploymentType d \<noteq> DtAnsible"
  shows "fst (trigger_route cs depId email w) = TriggerError 500 ''Failed to trigger deployment'' \<and>
         pipelines (snd (trigger_route cs depId email w)) = pipelines w \<and>
         deployments (snd (trigger_route cs depId email w)) = deployments w"
  using assms
  by (cases "deploymentType d")
     (simp_all add: trigger_route_def next_uuid_def new_Date_def Let_def
        pipeline_schema_ok_def step_type_enum_def step_status_enum_def route_step_def
        new_step_def)

text \<open>
  Claim C3 at a deployment that is already running, with a running pipeline stored:
  \<open>startPipeline\<close> does not fail, it stores a second running pipeline for the deployment
  and returns its id, where the trigger route answers that the deployment is already
  running.
\<close>

theorem startPipeline_running_no_conflict:
  "map_option deployment_status (deployments (world_with PRunning DRunning) ''dep-1'') =
     Some DRunning \<and>
   map_sum id fst (fst (startPipeline sample_collaborators ''dep-1'' ''bob''
     (world_with PRunning DRunning))) = Inr ''u'' \<and>
   map_option pipeline_status
     (pipelines (snd (startPipeline sample_collaborators ''dep-1'' ''bob''
        (world_with PRunning DRunning))) ''u'') = Some PRunning \<and>
   map_option pipeline_status
     (pipelines (snd (startPipeline sample_collaborators ''dep-1'' ''bob''
        (world_with PRunning DRunning))) ''pipe-1'') = Some PRunning \<and>
   fst (trigger_route sample_collaborators ''dep-1'' (Some ''bob'')
     (world_with PRunning DRunning)) = TriggerError 400 ''Deployment is already running''"
  by (simp add: startPipeline_def trigger_route_def next_uuid_def new_Date_def
      save_pipeline_def Let_def world_with_def sample_world_def sample_collaborators_def
      stored_pipeline_def split: prod.splits)

end
